theory Spec2Isabelle
  imports Complex_Main "HOL-Library.Sublist"
begin

section \<open>JavaScript values\<close>

text \<open>
  The forecast code is TypeScript; at run time it works on whatever \<open>JSON.parse\<close> gave it.
  A numeric field of a raw record is therefore a number, or \<open>undefined\<close> when the key is
  missing; arithmetic on \<open>undefined\<close> gives \<open>NaN\<close>. Reading a property of \<open>undefined\<close>
  throws a \<open>TypeError\<close>, the only exception the code under study can raise.
  Finite numbers are idealised as reals (IEEE rounding of \<open>/ 10\<close> and \<open>/ 100\<close> is not modelled).
\<close>

datatype error = TypeError

datatype jsnum = Undefined | NaN | Num real

text \<open>\<open>x / k\<close> for a finite non-zero literal \<open>k\<close>: \<open>undefined / k\<close> and \<open>NaN / k\<close> are \<open>NaN\<close>.\<close>

fun js_div :: "jsnum \<Rightarrow> real \<Rightarrow> jsnum" where
  "js_div (Num x) k = Num (x / k)"
| "js_div Undefined k = NaN"
| "js_div NaN k = NaN"

text \<open>\<open>a > b\<close> on numbers: any comparison with \<open>undefined\<close> or \<open>NaN\<close> is false.\<close>

fun js_gt :: "jsnum \<Rightarrow> jsnum \<Rightarrow> bool" where
  "js_gt (Num x) (Num y) = (y < x)"
| "js_gt _ _ = False"

text \<open>\<open>xs[i]\<close> on an array: \<open>undefined\<close> (here \<open>None\<close>) out of range.\<close>

definition js_index :: "'a list \<Rightarrow> nat \<Rightarrow> 'a option" where
  "js_index xs i = (if i < length xs then Some (xs ! i) else None)"

text \<open>\<open>xs.map(f)\<close> where the callback may throw: the first exception aborts the map.\<close>

fun map_result :: "('a \<Rightarrow> error + 'b) \<Rightarrow> 'a list \<Rightarrow> error + 'b list" where
  "map_result f [] = Inr []"
| "map_result f (x # xs) =
     (case f x of
        Inl e \<Rightarrow> Inl e
      | Inr y \<Rightarrow> (case map_result f xs of Inl e \<Rightarrow> Inl e | Inr ys \<Rightarrow> Inr (y # ys)))"

text \<open>
  A \<open>Date\<close> is its time value: an integral number of milliseconds since the epoch, or
  \<open>NaN\<close> for an invalid date (\<open>None\<close>), which is what \<open>new Date(s)\<close> yields for a missing
  or unparsable string.
\<close>

type_synonym Date = "int option"

text \<open>A \<open>number\<close> holding an hour count: an integer, or \<open>NaN\<close> (\<open>None\<close>).\<close>

type_synonym hours = "int option"

text \<open>
  \<open>a < b\<close> and \<open>a <= b\<close> on two dates (compared by time value) or two hour counts:
  false when either side is \<open>NaN\<close>.
\<close>

fun js_lt :: "int option \<Rightarrow> int option \<Rightarrow> bool" where
  "js_lt (Some a) (Some b) = (a < b)"
| "js_lt _ _ = False"

fun js_le :: "int option \<Rightarrow> int option \<Rightarrow> bool" where
  "js_le (Some a) (Some b) = (a \<le> b)"
| "js_le _ _ = False"

text \<open>Two valid dates, the second at least one hour (3600000 ms) after the first.\<close>

fun hour_apart :: "Date \<Rightarrow> Date \<Rightarrow> bool" where
  "hour_apart (Some a) (Some b) = (a + 3600000 \<le> b)"
| "hour_apart _ _ = False"

text \<open>
  \<open>Math.round(x)\<close>: the integer closest to \<open>x\<close>, ties towards \<open>+\<infinity>\<close>, that is
  \<open>floor(x + 0.5)\<close>.
\<close>

definition Math_round :: "real \<Rightarrow> int" where
  "Math_round x = \<lfloor>x + 1 / 2\<rfloor>"

text \<open>
  \<open>date.getDay()\<close>: the day of the week (0 = Sunday) of the date in local time, \<open>NaN\<close>
  for an invalid date. \<open>tza t\<close> is the local time zone adjustment in milliseconds at the
  instant \<open>t\<close>; 1 January 1970 was a Thursday (4).
\<close>

definition getDay :: "(int \<Rightarrow> int) \<Rightarrow> Date \<Rightarrow> int option" where
  "getDay tza date =
     (case date of
        None \<Rightarrow> None
      | Some t \<Rightarrow> Some (((t + tza t) div 86400000 + 4) mod 7))"

section \<open>Raw forecast records (\<open>LocationForecastsData\<close>)\<close>

text \<open>
  The wire types of \<open>Forecast.ts\<close>. Field names carry the name of their block as a prefix
  (\<open>bl_h\<close> is \<open>bl.h\<close>, \<open>d_xc\<close> is \<open>xc\<close> of an hour record). A nested block or array that
  may be missing at run time is an \<open>option\<close>; the elements of an array are objects of
  the declared shape. The time string \<open>t\<close> stands as the date that \<open>new Date(data.t)\<close>
  makes of it (\<open>d_t\<close>), parsing being left to the platform.
\<close>

record Wind =
  wind_u :: jsnum
  wind_v :: jsnum

record BoundaryLayerData =
  bl_h :: jsnum
  bl_u :: jsnum
  bl_v :: jsnum
  bl_c :: "(jsnum \<times> jsnum) option"

record ProfileEntryData =
  p_h :: jsnum
  p_t :: jsnum
  p_dt :: jsnum
  p_u :: jsnum
  p_v :: jsnum
  p_c :: jsnum

record SurfaceData =
  s_t :: jsnum
  s_dt :: jsnum
  s_u :: jsnum
  s_v :: jsnum

record RainData =
  r_t :: jsnum
  r_c :: jsnum

record DetailedForecastData =
  d_t :: Date
  d_xc :: jsnum
  d_xcf :: jsnum
  d_bl :: "BoundaryLayerData option"
  d_v :: jsnum
  d_p :: "ProfileEntryData list option"
  d_s :: "SurfaceData option"
  d_iso :: jsnum
  d_r :: "RainData option"
  d_mslet :: jsnum
  d_c :: jsnum
  d_w :: "Wind list option"

record DayForecastsData =
  day_th :: jsnum
  day_h :: "DetailedForecastData list option"

record LocationForecastsData =
  loc_h :: jsnum
  loc_d :: "DayForecastsData list option"

section \<open>The decoded domain model\<close>

record DetailedWinds =
  soaringLayerTop :: "Wind option"
  w_300MAGL :: "Wind option"
  w_2000MAMSL :: "Wind option"
  w_3000MAMSL :: "Wind option"
  w_4000MAMSL :: "Wind option"

record DetailedSurface =
  surface_temperature :: jsnum
  surface_dewPoint :: jsnum
  surface_wind :: Wind

record CumulusClouds =
  cu_bottom :: jsnum
  cu_top :: jsnum

record DetailedBoundaryLayer =
  depth :: jsnum
  soaringLayerDepth :: jsnum
  bl_wind :: Wind
  cumulusClouds :: "CumulusClouds option"

record DetailedRain =
  convective :: jsnum
  total :: jsnum

record AboveGround =
  ag_u :: jsnum
  ag_v :: jsnum
  ag_elevation :: jsnum
  ag_temperature :: jsnum
  ag_dewPoint :: jsnum
  ag_cloudCover :: jsnum

record DetailedForecast =
  time :: Date
  xcPotential :: jsnum
  xcPotentialFlatlands :: jsnum
  thermalVelocity :: jsnum
  boundaryLayer :: DetailedBoundaryLayer
  surface :: DetailedSurface
  cloudCover :: jsnum
  rain :: DetailedRain
  meanSeaLevelPressure :: jsnum
  isothermZero :: jsnum
  aboveGround :: "AboveGround list"
  winds :: DetailedWinds

record DayForecasts =
  thunderstormRisk :: jsnum
  forecasts :: "DetailedForecast list"

text \<open>
  Modelled from the spec: \<open>ForecastMetadata\<close> is declared in \<open>./ForecastMetadata\<close>, which is
  not among the sources. The spec gives it \<open>init\<close> (run initialization instant),
  \<open>firstTimeStep\<close> (instant of the first available forecast) and \<open>latest\<close> (maximum valid
  hour offset of the run).
\<close>

record ForecastMetadata =
  init :: Date
  firstTimeStep :: Date
  latest :: int

record LocationForecasts =
  elevation :: jsnum
  dayForecasts :: "DayForecasts list"
  metadata :: ForecastMetadata
  latitude :: jsnum
  longitude :: jsnum

section \<open>Decoding (\<open>Forecast.ts\<close> constructors)\<close>

text \<open>One decoded sample of the above-ground profile (the callback of \<open>.map\<close>).\<close>

definition aboveGround_entry :: "ProfileEntryData \<Rightarrow> AboveGround" where
  "aboveGround_entry entry =
     \<lparr> ag_u = p_u entry,
       ag_v = p_v entry,
       ag_elevation = p_h entry,
       ag_temperature = p_t entry,
       ag_dewPoint = p_dt entry,
       ag_cloudCover = js_div (p_c entry) 100 \<rparr>"

text \<open>
  \<open>new DetailedForecast(data, elevation)\<close>. Reading \<open>data.bl.h\<close>, \<open>data.s.t\<close>, \<open>data.r.c\<close>,
  \<open>data.p.filter\<close> or \<open>data.w[0]\<close> throws a \<open>TypeError\<close> when the block is missing; every
  other field is copied (or scaled) as it is, with no check.
\<close>

definition new_DetailedForecast :: "DetailedForecastData \<Rightarrow> jsnum \<Rightarrow> error + DetailedForecast" where
  "new_DetailedForecast data elev =
     (case d_bl data of None \<Rightarrow> Inl TypeError | Some bl \<Rightarrow>
      case d_s data of None \<Rightarrow> Inl TypeError | Some s \<Rightarrow>
      case d_r data of None \<Rightarrow> Inl TypeError | Some r \<Rightarrow>
      case d_p data of None \<Rightarrow> Inl TypeError | Some p \<Rightarrow>
      case d_w data of None \<Rightarrow> Inl TypeError | Some w \<Rightarrow>
        Inr \<lparr> time = d_t data,
              xcPotential = d_xc data,
              xcPotentialFlatlands = (if d_xcf data \<noteq> Undefined then d_xcf data else Num 0),
              thermalVelocity = js_div (d_v data) 10,
              boundaryLayer =
                \<lparr> depth = bl_h bl,
                  soaringLayerDepth = (case bl_c bl of Some c \<Rightarrow> fst c | None \<Rightarrow> bl_h bl),
                  bl_wind = \<lparr> wind_u = bl_u bl, wind_v = bl_v bl \<rparr>,
                  cumulusClouds =
                    (case bl_c bl of
                       None \<Rightarrow> None
                     | Some c \<Rightarrow> Some \<lparr> cu_bottom = fst c, cu_top = snd c \<rparr>) \<rparr>,
              surface =
                \<lparr> surface_temperature = s_t s,
                  surface_dewPoint = s_dt s,
                  surface_wind = \<lparr> wind_u = s_u s, wind_v = s_v s \<rparr> \<rparr>,
              cloudCover = js_div (d_c data) 100,
              rain = \<lparr> convective = r_c r, total = r_t r \<rparr>,
              meanSeaLevelPressure = d_mslet data,
              isothermZero = (if d_iso data \<noteq> Undefined then d_iso data else Undefined),
              aboveGround = map aboveGround_entry (filter (\<lambda>e. js_gt (p_h e) elev) p),
              winds =
                \<lparr> soaringLayerTop = js_index w 0,
                  w_300MAGL = js_index w 1,
                  w_2000MAMSL = js_index w 2,
                  w_3000MAMSL = js_index w 3,
                  w_4000MAMSL = js_index w 4 \<rparr> \<rparr>)"

text \<open>\<open>new DayForecasts(data, elevation)\<close>; \<open>data.h.map\<close> throws when \<open>data.h\<close> is missing.\<close>

definition new_DayForecasts :: "DayForecastsData \<Rightarrow> jsnum \<Rightarrow> error + DayForecasts" where
  "new_DayForecasts data elev =
     (case day_h data of
        None \<Rightarrow> Inl TypeError
      | Some hs \<Rightarrow>
          (case map_result (\<lambda>data. new_DetailedForecast data elev) hs of
             Inl e \<Rightarrow> Inl e
           | Inr fs \<Rightarrow> Inr \<lparr> thunderstormRisk = day_th data, forecasts = fs \<rparr>))"

text \<open>\<open>new LocationForecasts(data, metadata, latitude, longitude)\<close>.\<close>

definition new_LocationForecasts ::
  "LocationForecastsData \<Rightarrow> ForecastMetadata \<Rightarrow> jsnum \<Rightarrow> jsnum \<Rightarrow> error + LocationForecasts" where
  "new_LocationForecasts data md lat lon =
     (case loc_d data of
        None \<Rightarrow> Inl TypeError
      | Some ds \<Rightarrow>
          (case map_result (\<lambda>d. new_DayForecasts d (loc_h data)) ds of
             Inl e \<Rightarrow> Inl e
           | Inr dfs \<Rightarrow>
               Inr \<lparr> elevation = loc_h data, dayForecasts = dfs, metadata = md,
                     latitude = lat, longitude = lon \<rparr>))"

section \<open>Temporal index (\<open>LocationForecasts\<close> methods)\<close>

text \<open>
  \<open>forecast.hourOffsetSinceFirstTimeStep(firstTimeStep)\<close>:
  \<open>Math.round((this.time.getTime() - firstTimeStep.getTime()) / 3600000)\<close>.
  The difference is \<open>NaN\<close>, and so is the result, when either date is invalid.
\<close>

definition hourOffsetSinceFirstTimeStep :: "DetailedForecast \<Rightarrow> Date \<Rightarrow> hours" where
  "hourOffsetSinceFirstTimeStep forecast first =
     (case time forecast of
        None \<Rightarrow> None
      | Some t \<Rightarrow>
          (case first of
             None \<Rightarrow> None
           | Some t0 \<Rightarrow> Some (Math_round ((real_of_int t - real_of_int t0) / 3600000))))"

text \<open>\<open>this.dayForecasts.map(_ => _.forecasts).reduce((x, y) => x.concat(y), [])\<close>.\<close>

definition flatForecasts :: "LocationForecasts \<Rightarrow> DetailedForecast list" where
  "flatForecasts lf = foldl (\<lambda>x y. x @ y) [] (map forecasts (dayForecasts lf))"

definition offsetAndDates :: "LocationForecasts \<Rightarrow> (hours \<times> Date) list" where
  "offsetAndDates lf =
     map (\<lambda>forecast.
            (hourOffsetSinceFirstTimeStep forecast (firstTimeStep (metadata lf)), time forecast))
         (flatForecasts lf)"

text \<open>
  \<open>atHourOffset(hourOffset)\<close>: \<open>.find\<close> returns the first element satisfying the predicate,
  \<open>undefined\<close> (\<open>None\<close>) when there is none; \<open>===\<close> against a \<open>NaN\<close> offset is false.
\<close>

definition atHourOffset :: "LocationForecasts \<Rightarrow> int \<Rightarrow> DetailedForecast option" where
  "atHourOffset lf hourOffset =
     List.find
       (\<lambda>forecast.
          hourOffsetSinceFirstTimeStep forecast (firstTimeStep (metadata lf)) = Some hourOffset)
       (flatForecasts lf)"

section \<open>Day grouping (\<open>PeriodSelector\<close>)\<close>

text \<open>
  \<open>flatPeriodSelectors()\<close> is an array of triples \<open>[htmlEl, hourOffset, date]\<close>; the element
  is opaque here (\<open>'e\<close>). A day group is \<open>[Array<[HTMLElement, number]>, Date]\<close>.
\<close>

type_synonym 'e period = "'e \<times> hours \<times> Date"
type_synonym 'e day_group = "('e \<times> hours) list \<times> Date"

text \<open>
  \<open>date.getDay() === lastDay\<close>, where \<open>lastDay\<close> is \<open>null\<close> (\<open>None\<close>) before the first
  period: true only for two equal numbers, so never for \<open>null\<close> or \<open>NaN\<close>.
\<close>

fun day_strict_eq :: "int option \<Rightarrow> int option option \<Rightarrow> bool" where
  "day_strict_eq (Some a) (Some (Some b)) = (a = b)"
| "day_strict_eq _ _ = False"

text \<open>
  The body of the \<open>forEach\<close> of \<open>periodSelectorsByDay\<close>, on the state \<open>(result, lastDay)\<close>.
  \<open>result[result.length - 1][0].push(...)\<close> throws a \<open>TypeError\<close> on an empty \<open>result\<close>.
\<close>

fun byDay_step ::
  "(int \<Rightarrow> int) \<Rightarrow> 'e day_group list \<times> int option option \<Rightarrow> 'e period \<Rightarrow>
     error + ('e day_group list \<times> int option option)" where
  "byDay_step tza (result, lastDay) (hourSelector, hourOffset, date) =
     (if day_strict_eq (getDay tza date) lastDay then
        (if result = [] then Inl TypeError
         else Inr (result[length result - 1 :=
                     (fst (result ! (length result - 1)) @ [(hourSelector, hourOffset)],
                      snd (result ! (length result - 1)))],
                   Some (getDay tza date)))
      else Inr (result @ [([(hourSelector, hourOffset)], date)], Some (getDay tza date)))"

text \<open>\<open>xs.forEach(body)\<close> over an explicit state; an exception of the body ends the loop.\<close>

fun forEach :: "('s \<Rightarrow> 'a \<Rightarrow> error + 's) \<Rightarrow> 'a list \<Rightarrow> 's \<Rightarrow> error + 's" where
  "forEach body [] s = Inr s"
| "forEach body (x # xs) s =
     (case body s x of Inl e \<Rightarrow> Inl e | Inr s' \<Rightarrow> forEach body xs s')"

definition periodSelectorsByDay ::
  "(int \<Rightarrow> int) \<Rightarrow> 'e period list \<Rightarrow> error + 'e day_group list" where
  "periodSelectorsByDay tza flatPeriodSelectors =
     (case forEach (byDay_step tza) flatPeriodSelectors ([], None) of
        Inl e \<Rightarrow> Inl e
      | Inr (result, lastDay) \<Rightarrow> Inr result)"

text \<open>
  What \<open>periodSelectors\<close> renders for one day group: the width of the day element in
  columns, what a click on it does, its text, and the hour selectors below it.
  The text is \<open>date.toLocaleDateString(undefined, {day: '2-digit', month: 'short',
  weekday: 'short'})\<close> or the no-break space \<open>'\xa0'\<close>. A click evaluates
  \<open>periods[1][1]\<close>, which throws a \<open>TypeError\<close> when \<open>periods[1]\<close> is \<open>undefined\<close>,
  and passes the value to \<open>props.onClick\<close>.
\<close>

datatype DayLabel = LocaleDateString Date | Nbsp

record 'e DayElement =
  dayEl_columns :: nat
  dayEl_onClick :: "error + hours"
  dayEl_label :: DayLabel
  dayEl_periods :: "'e list"

definition dayElement :: "int \<Rightarrow> 'e day_group \<Rightarrow> 'e DayElement" where
  "dayElement periodsPerDay g =
     (case g of (periods, date) \<Rightarrow>
        \<lparr> dayEl_columns = length periods,
          dayEl_onClick =
            (case js_index periods 1 of
               None \<Rightarrow> Inl TypeError
             | Some period \<Rightarrow> Inr (snd period)),
          dayEl_label =
            (if int (length periods) = periodsPerDay then LocaleDateString date else Nbsp),
          dayEl_periods = map fst periods \<rparr>)"

text \<open>
  \<open>periodSelectors()\<close>; \<open>periodsPerDay\<close> is a constant imported from
  \<open>./data/ForecastMetadata\<close> (not among the sources), taken as a parameter.
\<close>

definition periodSelectors :: "int \<Rightarrow> 'e day_group list \<Rightarrow> 'e DayElement list" where
  "periodSelectors periodsPerDay groups = map (dayElement periodsPerDay) groups"

section \<open>Offset navigation (\<open>PeriodSelectors\<close> buttons)\<close>

text \<open>
  The four \<open>onClick\<close> handlers: the value each passes to \<open>onHourOffsetChanged\<close>, from
  \<open>props.hourOffset\<close> and \<open>props.forecastMetadata.latest\<close>.
\<close>

definition previousDayBtn :: "int \<Rightarrow> int" where
  "previousDayBtn hourOffset = max (hourOffset - 24) 3"

definition previousPeriodBtn :: "int \<Rightarrow> int" where
  "previousPeriodBtn hourOffset = max (hourOffset - 3) 3"

definition nextPeriodBtn :: "int \<Rightarrow> int \<Rightarrow> int" where
  "nextPeriodBtn hourOffset latest_offset = min (hourOffset + 3) latest_offset"

definition nextDayBtn :: "int \<Rightarrow> int \<Rightarrow> int" where
  "nextDayBtn hourOffset latest_offset = min (hourOffset + 24) latest_offset"

text \<open>
  The specification's view of the same buttons: a navigation intent with a delta, and
  \<open>nextOffset(current, intent, bounds) = clamp(current + delta, min, max)\<close>.
\<close>

datatype intent = PreviousDay | PreviousPeriod | NextPeriod | NextDay

fun delta :: "intent \<Rightarrow> int" where
  "delta PreviousDay = - 24"
| "delta PreviousPeriod = - 3"
| "delta NextPeriod = 3"
| "delta NextDay = 24"

definition clamp :: "int \<Rightarrow> int \<Rightarrow> int \<Rightarrow> int" where
  "clamp x lo hi = (if x < lo then lo else if hi < x then hi else x)"

definition nextOffset_spec :: "int \<Rightarrow> intent \<Rightarrow> int \<Rightarrow> int \<Rightarrow> int" where
  "nextOffset_spec current i lo hi = clamp (current + delta i) lo hi"

text \<open>The button that serves each intent.\<close>

fun nextOffset :: "int \<Rightarrow> intent \<Rightarrow> int \<Rightarrow> int" where
  "nextOffset current PreviousDay latest_offset = previousDayBtn current"
| "nextOffset current PreviousPeriod latest_offset = previousPeriodBtn current"
| "nextOffset current NextPeriod latest_offset = nextPeriodBtn current latest_offset"
| "nextOffset current NextDay latest_offset = nextDayBtn current latest_offset"

section \<open>Shape of a raw record\<close>

text \<open>
  The condition that every block and array the constructors dereference is there, and
  what it means for a forecast \<open>f\<close> to hold the fields of the hour record \<open>h\<close> as they
  are: each numeric field equal to the raw one (\<open>undefined\<close> included), \<open>v\<close> divided by
  10 and the cloud covers by 100, \<open>xcf\<close> replaced by 0 when it is \<open>undefined\<close>, the profile
  filtered by the terrain elevation \<open>elev\<close>, and the five winds read by index.
\<close>

definition hour_blocks_present :: "DetailedForecastData \<Rightarrow> bool" where
  "hour_blocks_present h \<longleftrightarrow>
     d_bl h \<noteq> None \<and> d_s h \<noteq> None \<and> d_r h \<noteq> None \<and> d_p h \<noteq> None \<and> d_w h \<noteq> None"

definition blocks_present :: "LocationForecastsData \<Rightarrow> bool" where
  "blocks_present data \<longleftrightarrow>
     (case loc_d data of
        None \<Rightarrow> False
      | Some ds \<Rightarrow>
          list_all (\<lambda>day. case day_h day of
                             None \<Rightarrow> False
                           | Some hs \<Rightarrow> list_all hour_blocks_present hs) ds)"

definition copied_as_is :: "jsnum \<Rightarrow> DetailedForecastData \<Rightarrow> DetailedForecast \<Rightarrow> bool" where
  "copied_as_is elev h f \<longleftrightarrow>
     time f = d_t h \<and>
     xcPotential f = d_xc h \<and>
     xcPotentialFlatlands f = (if d_xcf h = Undefined then Num 0 else d_xcf h) \<and>
     thermalVelocity f = js_div (d_v h) 10 \<and>
     cloudCover f = js_div (d_c h) 100 \<and>
     meanSeaLevelPressure f = d_mslet h \<and>
     isothermZero f = d_iso h \<and>
     (case d_bl h of
        None \<Rightarrow> False
      | Some bl \<Rightarrow>
          depth (boundaryLayer f) = bl_h bl \<and>
          wind_u (bl_wind (boundaryLayer f)) = bl_u bl \<and>
          wind_v (bl_wind (boundaryLayer f)) = bl_v bl \<and>
          soaringLayerDepth (boundaryLayer f) =
            (case bl_c bl of None \<Rightarrow> bl_h bl | Some c \<Rightarrow> fst c) \<and>
          cumulusClouds (boundaryLayer f) =
            (case bl_c bl of
               None \<Rightarrow> None
             | Some c \<Rightarrow> Some \<lparr> cu_bottom = fst c, cu_top = snd c \<rparr>)) \<and>
     (case d_s h of
        None \<Rightarrow> False
      | Some s \<Rightarrow>
          surface_temperature (surface f) = s_t s \<and>
          surface_dewPoint (surface f) = s_dt s \<and>
          wind_u (surface_wind (surface f)) = s_u s \<and>
          wind_v (surface_wind (surface f)) = s_v s) \<and>
     (case d_r h of
        None \<Rightarrow> False
      | Some r \<Rightarrow> convective (rain f) = r_c r \<and> total (rain f) = r_t r) \<and>
     (case d_p h of
        None \<Rightarrow> False
      | Some p \<Rightarrow>
          aboveGround f =
            map (\<lambda>e. \<lparr> ag_u = p_u e, ag_v = p_v e, ag_elevation = p_h e,
                        ag_temperature = p_t e, ag_dewPoint = p_dt e,
                        ag_cloudCover = js_div (p_c e) 100 \<rparr>)
                (filter (\<lambda>e. js_gt (p_h e) elev) p)) \<and>
     (case d_w h of
        None \<Rightarrow> False
      | Some w \<Rightarrow>
          soaringLayerTop (winds f) = js_index w 0 \<and>
          w_300MAGL (winds f) = js_index w 1 \<and>
          w_2000MAMSL (winds f) = js_index w 2 \<and>
          w_3000MAMSL (winds f) = js_index w 3 \<and>
          w_4000MAMSL (winds f) = js_index w 4)"

section \<open>The state of the grouping loop\<close>

text \<open>
  What holds of \<open>(result, lastDay)\<close> after the loop of \<open>periodSelectorsByDay\<close> has consumed
  the periods \<open>xs\<close>.
\<close>

definition byDay_inv :: "(int \<Rightarrow> int) \<Rightarrow> 'e period list \<Rightarrow> 'e day_group list \<times> int option option \<Rightarrow> bool" where
  "byDay_inv tza xs st \<longleftrightarrow>
     snd st = (if xs = [] then None else Some (getDay tza (snd (snd (last xs))))) \<and>
     (fst st = [] \<longleftrightarrow> xs = []) \<and>
     concat (map fst (fst st)) = map (\<lambda>p. (fst p, fst (snd p))) xs \<and>
     [] \<notin> set (map fst (fst st))"

section \<open>Example inputs\<close>

text \<open>A run whose first time step is the epoch, and a raw record for one location.\<close>

definition run_metadata :: ForecastMetadata where
  "run_metadata = \<lparr> init = Some 0, firstTimeStep = Some 0, latest = 180 \<rparr>"

definition profile_entry :: "real \<Rightarrow> ProfileEntryData" where
  "profile_entry h =
     \<lparr> p_h = Num h, p_t = Num 10, p_dt = Num 4, p_u = Num 6, p_v = Num 1, p_c = Num 20 \<rparr>"

definition hour_record ::
  "Date \<Rightarrow> jsnum \<Rightarrow> (jsnum \<times> jsnum) option \<Rightarrow> DetailedForecastData" where
  "hour_record t xc c =
     \<lparr> d_t = t, d_xc = xc, d_xcf = Undefined,
       d_bl = Some \<lparr> bl_h = Num 1400, bl_u = Num 5, bl_v = Num (- 3), bl_c = c \<rparr>,
       d_v = Num 73,
       d_p = Some [profile_entry 300, profile_entry 600, profile_entry 1200],
       d_s = Some \<lparr> s_t = Num 18, s_dt = Num 9, s_u = Num 4, s_v = Num 2 \<rparr>,
       d_iso = Num 3100,
       d_r = Some \<lparr> r_t = Num 0, r_c = Num 0 \<rparr>,
       d_mslet = Num 1015,
       d_c = Num 45,
       d_w = Some (replicate 5 \<lparr> wind_u = Num 7, wind_v = Num 0 \<rparr>) \<rparr>"

definition location_record :: "DetailedForecastData list \<Rightarrow> LocationForecastsData" where
  "location_record hs = \<lparr> loc_h = Num 500, loc_d = Some [\<lparr> day_th = Num 1, day_h = Some hs \<rparr>] \<rparr>"

text \<open>The local time zone of the examples: UTC.\<close>

definition utc :: "int \<Rightarrow> int" where
  "utc t = 0"

text \<open>
  Seven periods, three on Monday 5 January 1970 and four on the Tuesday, with the day
  groups they fall into.
\<close>

definition week_periods :: "string period list" where
  "week_periods =
     [(''06'', Some 3, Some 367200000), (''12'', Some 9, Some 388800000),
      (''18'', Some 15, Some 410400000), (''00'', Some 21, Some 432000000),
      (''06'', Some 27, Some 453600000), (''12'', Some 33, Some 475200000),
      (''18'', Some 39, Some 496800000)]"

definition week_groups :: "string day_group list" where
  "week_groups =
     [([(''06'', Some 3), (''12'', Some 9), (''18'', Some 15)], Some 367200000),
      ([(''00'', Some 21), (''06'', Some 27), (''12'', Some 33), (''18'', Some 39)],
       Some 432000000)]"

text \<open>A location whose only hour record lacks \<open>xc\<close>.\<close>

definition record_without_xc :: LocationForecastsData where
  "record_without_xc = location_record [hour_record (Some 10800000) Undefined None]"

text \<open>Two hour records one minute apart, and two three hours apart.\<close>

definition close_record :: LocationForecastsData where
  "close_record =
     location_record
       [hour_record (Some 10800000) (Num 40) None, hour_record (Some 10860000) (Num 40) None]"

definition three_hourly_record :: LocationForecastsData where
  "three_hourly_record =
     location_record
       [hour_record (Some 10800000) (Num 40) None, hour_record (Some 21600000) (Num 60) None]"

text \<open>The decoded forecasts of an example record (each example decodes).\<close>

definition decoded :: "LocationForecastsData \<Rightarrow> LocationForecasts" where
  "decoded data = projr (new_LocationForecasts data run_metadata (Num 46) (Num 7))"

text \<open>An hour record with most of its numeric fields missing, and a location made of it.\<close>

definition sparse_hour :: DetailedForecastData where
  "sparse_hour =
     \<lparr> d_t = Some 10800000, d_xc = Undefined, d_xcf = Undefined,
       d_bl = Some \<lparr> bl_h = Undefined, bl_u = Num 5, bl_v = Undefined, bl_c = None \<rparr>,
       d_v = Undefined,
       d_p = Some [profile_entry 300, profile_entry 600],
       d_s = Some \<lparr> s_t = Undefined, s_dt = Num 9, s_u = Undefined, s_v = Num 2 \<rparr>,
       d_iso = Undefined,
       d_r = Some \<lparr> r_t = Undefined, r_c = Undefined \<rparr>,
       d_mslet = Undefined,
       d_c = Num 45,
       d_w = Some [\<lparr> wind_u = Num 7, wind_v = Num 0 \<rparr>] \<rparr>"

definition sparse_record :: LocationForecastsData where
  "sparse_record =
     \<lparr> loc_h = Num 500, loc_d = Some [\<lparr> day_th = Undefined, day_h = Some [sparse_hour] \<rparr>] \<rparr>"

text \<open>Two days of two hour records each: 3 h, 6 h, 27 h and 30 h after the epoch.\<close>

definition two_day_record :: LocationForecastsData where
  "two_day_record =
     \<lparr> loc_h = Num 500,
       loc_d = Some
         [\<lparr> day_th = Num 1,
            day_h = Some [hour_record (Some 10800000) (Num 40) None,
                          hour_record (Some 21600000) (Num 60) None] \<rparr>,
          \<lparr> day_th = Num 2,
            day_h = Some [hour_record (Some 97200000) (Num 80) None,
                          hour_record (Some 108000000) (Num 90) None] \<rparr>] \<rparr>"

text \<open>The Monday periods and the first Tuesday period only.\<close>

definition short_week_periods :: "string period list" where
  "short_week_periods = take 4 week_periods"

section \<open>Properties\<close>

subsection \<open>Decoding\<close>

lemma new_DetailedForecast_Inr:
  assumes "new_DetailedForecast data elev = Inr f"
  obtains bl s r p w where
    "d_bl data = Some bl" "d_s data = Some s" "d_r data = Some r" "d_p data = Some p"
    "d_w data = Some w"
    "time f = d_t data" "xcPotential f = d_xc data"
    "thermalVelocity f = js_div (d_v data) 10"
    "cloudCover f = js_div (d_c data) 100"
    "meanSeaLevelPressure f = d_mslet data"
    "depth (boundaryLayer f) = bl_h bl"
    "soaringLayerDepth (boundaryLayer f) = (case bl_c bl of Some c \<Rightarrow> fst c | None \<Rightarrow> bl_h bl)"
    "cumulusClouds (boundaryLayer f) =
       (case bl_c bl of None \<Rightarrow> None | Some c \<Rightarrow> Some \<lparr> cu_bottom = fst c, cu_top = snd c \<rparr>)"
    "aboveGround f = map aboveGround_entry (filter (\<lambda>e. js_gt (p_h e) elev) p)"
proof -
  from assms obtain bl where bl: "d_bl data = Some bl"
    by (cases "d_bl data") (simp_all add: new_DetailedForecast_def)
  from assms bl obtain s where s: "d_s data = Some s"
    by (cases "d_s data") (simp_all add: new_DetailedForecast_def)
  from assms bl s obtain r where r: "d_r data = Some r"
    by (cases "d_r data") (simp_all add: new_DetailedForecast_def)
  from assms bl s r obtain p where p: "d_p data = Some p"
    by (cases "d_p data") (simp_all add: new_DetailedForecast_def)
  from assms bl s r p obtain w where w: "d_w data = Some w"
    by (cases "d_w data") (simp_all add: new_DetailedForecast_def)
  from assms have f: "f = projr (new_DetailedForecast data elev)" by simp
  show ?thesis
    by (rule that[OF bl s r p w]) (simp_all add: f new_DetailedForecast_def bl s r p w)
qed

lemma new_DetailedForecast_succeeds_iff:
  "(\<exists>f. new_DetailedForecast data elev = Inr f) \<longleftrightarrow>
     d_bl data \<noteq> None \<and> d_s data \<noteq> None \<and> d_r data \<noteq> None \<and> d_p data \<noteq> None \<and> d_w data \<noteq> None"
  by (auto simp add: new_DetailedForecast_def split: option.splits)

lemma map_result_Inr_D:
  "map_result f xs = Inr ys \<Longrightarrow> list_all2 (\<lambda>x y. f x = Inr y) xs ys"
  by (induction xs arbitrary: ys) (auto split: sum.splits)

lemma map_result_Inr_I:
  "list_all2 (\<lambda>x y. f x = Inr y) xs ys \<Longrightarrow> map_result f xs = Inr ys"
  by (induction xs ys rule: list_all2_induct) simp_all

lemma map_result_succeeds_iff:
  "(\<exists>ys. map_result f xs = Inr ys) \<longleftrightarrow> list_all (\<lambda>x. \<exists>y. f x = Inr y) xs"
  by (induction xs) (auto split: sum.splits)

lemma foldl_append_concat: "foldl (\<lambda>x y. x @ y) acc xss = acc @ concat xss"
  by (induction xss arbitrary: acc) simp_all

lemma flatForecasts_concat: "flatForecasts lf = concat (map forecasts (dayForecasts lf))"
  by (simp add: flatForecasts_def foldl_append_concat)

lemma new_DayForecasts_succeeds_iff:
  "(\<exists>df. new_DayForecasts day elev = Inr df) \<longleftrightarrow>
     (case day_h day of None \<Rightarrow> False | Some hs \<Rightarrow> list_all hour_blocks_present hs)"
proof (cases "day_h day")
  case None
  then show ?thesis by (simp add: new_DayForecasts_def)
next
  case (Some hs)
  have "(\<exists>df. new_DayForecasts day elev = Inr df) \<longleftrightarrow>
          (\<exists>fs. map_result (\<lambda>data. new_DetailedForecast data elev) hs = Inr fs)"
    by (auto simp add: new_DayForecasts_def Some split: sum.splits)
  also have "\<dots> \<longleftrightarrow> list_all hour_blocks_present hs"
    unfolding map_result_succeeds_iff new_DetailedForecast_succeeds_iff hour_blocks_present_def ..
  finally show ?thesis by (simp add: Some)
qed

lemma new_DayForecasts_Inr:
  assumes "new_DayForecasts day elev = Inr df"
  obtains hs where "day_h day = Some hs"
    "list_all2 (\<lambda>h f. new_DetailedForecast h elev = Inr f) hs (forecasts df)"
    "thunderstormRisk df = day_th day"
proof -
  from assms obtain hs where hs: "day_h day = Some hs"
    by (cases "day_h day") (simp_all add: new_DayForecasts_def)
  from assms hs obtain fs where fs: "map_result (\<lambda>data. new_DetailedForecast data elev) hs = Inr fs"
    and df: "df = \<lparr> thunderstormRisk = day_th day, forecasts = fs \<rparr>"
    by (auto simp add: new_DayForecasts_def split: sum.splits)
  show ?thesis
    by (rule that[OF hs]) (simp_all add: df map_result_Inr_D[OF fs])
qed

lemma new_LocationForecasts_succeeds_iff:
  "(\<exists>lf. new_LocationForecasts data md lat lon = Inr lf) \<longleftrightarrow> blocks_present data"
proof (cases "loc_d data")
  case None
  then show ?thesis by (simp add: new_LocationForecasts_def blocks_present_def)
next
  case (Some ds)
  have "(\<exists>lf. new_LocationForecasts data md lat lon = Inr lf) \<longleftrightarrow>
          (\<exists>dfs. map_result (\<lambda>d. new_DayForecasts d (loc_h data)) ds = Inr dfs)"
    by (auto simp add: new_LocationForecasts_def Some split: sum.splits)
  also have "\<dots> \<longleftrightarrow> blocks_present data"
    unfolding map_result_succeeds_iff new_DayForecasts_succeeds_iff
    by (simp add: blocks_present_def Some)
  finally show ?thesis .
qed

lemma hour_record_decodes:
  "\<exists>f. new_DetailedForecast (hour_record t xc c) elev = Inr f"
  by (simp add: new_DetailedForecast_succeeds_iff hour_record_def)

text \<open>
  Against C1 as stated: a record whose required field \<open>xc\<close> is missing is decoded, with
  no error, to a forecast whose \<open>xcPotential\<close> is \<open>undefined\<close>.
\<close>

theorem missing_xc_decodes_counterexample:
  "d_xc (hour_record (Some 10800000) Undefined None) = Undefined
   \<and> \<not> isl (new_LocationForecasts record_without_xc run_metadata (Num 46) (Num 7))
   \<and> map xcPotential
        (flatForecasts (projr (new_LocationForecasts record_without_xc run_metadata (Num 46) (Num 7))))
      = [Undefined]"
  by (simp add: record_without_xc_def location_record_def new_LocationForecasts_def
      new_DayForecasts_def new_DetailedForecast_def hour_record_def flatForecasts_def)

lemma new_DetailedForecast_copied:
  assumes "new_DetailedForecast h elev = Inr f"
  shows "copied_as_is elev h f"
proof -
  from assms obtain bl s r p w where
    b: "d_bl h = Some bl" "d_s h = Some s" "d_r h = Some r" "d_p h = Some p" "d_w h = Some w"
    by (rule new_DetailedForecast_Inr)
  from assms have f: "f = projr (new_DetailedForecast h elev)" by simp
  show ?thesis
    unfolding copied_as_is_def f
    by (simp add: new_DetailedForecast_def b aboveGround_entry_def)
qed

lemma new_LocationForecasts_days:
  assumes "new_LocationForecasts data md lat lon = Inr lf"
  shows "elevation lf = loc_h data \<and> metadata lf = md \<and> latitude lf = lat \<and> longitude lf = lon \<and>
     list_all2 (\<lambda>day df. new_DayForecasts day (loc_h data) = Inr df)
       (case loc_d data of None \<Rightarrow> [] | Some ds \<Rightarrow> ds) (dayForecasts lf)"
proof -
  from assms obtain ds where ds: "loc_d data = Some ds"
    by (cases "loc_d data") (simp_all add: new_LocationForecasts_def)
  from assms ds obtain dfs where
    dfs: "map_result (\<lambda>d. new_DayForecasts d (loc_h data)) ds = Inr dfs"
    and lf: "lf = \<lparr> elevation = loc_h data, dayForecasts = dfs, metadata = md,
                     latitude = lat, longitude = lon \<rparr>"
    by (auto simp add: new_LocationForecasts_def split: sum.splits)
  from map_result_Inr_D[OF dfs] show ?thesis
    by (simp add: lf ds)
qed

text \<open>
  C1, amended. The decoder validates nothing: decoding succeeds exactly when every nested
  block and array it dereferences (\<open>d\<close>, each day's \<open>h\<close>, each hour's \<open>bl\<close>, \<open>s\<close>,
  \<open>r\<close>, \<open>p\<close>, \<open>w\<close>) is present, and then the result holds, day by day and hour by hour,
  every field of the raw record as it is: a missing numeric field stays \<open>undefined\<close>
  (\<open>NaN\<close> after the scaling of \<open>v\<close> and of the cloud covers), and the only value the
  decoder supplies is 0 for a missing \<open>xcf\<close>. The only failure is the \<open>TypeError\<close> of
  reading a property of a missing block.
\<close>

theorem decoding_has_no_validation:
  "((\<exists>lf. new_LocationForecasts data md lat lon = Inr lf) \<longleftrightarrow> blocks_present data)
   \<and> (\<forall>lf. new_LocationForecasts data md lat lon = Inr lf \<longrightarrow>
         elevation lf = loc_h data \<and> metadata lf = md
         \<and> latitude lf = lat \<and> longitude lf = lon
         \<and> list_all2
             (\<lambda>day df. thunderstormRisk df = day_th day
                        \<and> list_all2 (copied_as_is (loc_h data))
                            (case day_h day of None \<Rightarrow> [] | Some hs \<Rightarrow> hs) (forecasts df))
             (case loc_d data of None \<Rightarrow> [] | Some ds \<Rightarrow> ds) (dayForecasts lf))"
proof (intro conjI allI impI)
  show "(\<exists>lf. new_LocationForecasts data md lat lon = Inr lf) \<longleftrightarrow> blocks_present data"
    by (rule new_LocationForecasts_succeeds_iff)
next
  fix lf
  assume lf: "new_LocationForecasts data md lat lon = Inr lf"
  note d = new_LocationForecasts_days[OF lf]
  from d show "elevation lf = loc_h data" "metadata lf = md" "latitude lf = lat"
    "longitude lf = lon"
    by simp_all
  have day: "thunderstormRisk df = day_th day
      \<and> list_all2 (copied_as_is (loc_h data))
           (case day_h day of None \<Rightarrow> [] | Some hs \<Rightarrow> hs) (forecasts df)"
    if "new_DayForecasts day (loc_h data) = Inr df" for day df
  proof -
    from that obtain hs where hs: "day_h day = Some hs"
      and l: "list_all2 (\<lambda>h f. new_DetailedForecast h (loc_h data) = Inr f) hs (forecasts df)"
      and th: "thunderstormRisk df = day_th day"
      by (rule new_DayForecasts_Inr)
    from l have "list_all2 (copied_as_is (loc_h data)) hs (forecasts df)"
      by (rule list_all2_mono) (rule new_DetailedForecast_copied)
    with th hs show ?thesis by simp
  qed
  from d have "list_all2 (\<lambda>day df. new_DayForecasts day (loc_h data) = Inr df)
       (case loc_d data of None \<Rightarrow> [] | Some ds \<Rightarrow> ds) (dayForecasts lf)"
    by simp
  then show "list_all2
             (\<lambda>day df. thunderstormRisk df = day_th day
                        \<and> list_all2 (copied_as_is (loc_h data))
                            (case day_h day of None \<Rightarrow> [] | Some hs \<Rightarrow> hs) (forecasts df))
             (case loc_d data of None \<Rightarrow> [] | Some ds \<Rightarrow> ds) (dayForecasts lf)"
    by (rule list_all2_mono) (rule day)
qed

text \<open>
  A record with its blocks present and most numeric fields missing decodes, and the
  missing fields are \<open>undefined\<close> or \<open>NaN\<close> in the result; \<open>xcPotentialFlatlands\<close> is 0.
\<close>

theorem decoding_has_no_validation_witness:
  "blocks_present sparse_record
   \<and> (\<exists>lf f. new_LocationForecasts sparse_record run_metadata (Num 46) (Num 7) = Inr lf
         \<and> elevation lf = Num 500
         \<and> map thunderstormRisk (dayForecasts lf) = [Undefined]
         \<and> map forecasts (dayForecasts lf) = [[f]]
         \<and> xcPotential f = Undefined
         \<and> xcPotentialFlatlands f = Num 0
         \<and> thermalVelocity f = NaN
         \<and> cloudCover f = Num (45 / 100)
         \<and> meanSeaLevelPressure f = Undefined
         \<and> isothermZero f = Undefined
         \<and> depth (boundaryLayer f) = Undefined
         \<and> soaringLayerDepth (boundaryLayer f) = Undefined
         \<and> surface_temperature (surface f) = Undefined
         \<and> total (rain f) = Undefined
         \<and> map ag_elevation (aboveGround f) = [Num 600]
         \<and> w_300MAGL (winds f) = None)"
proof -
  have bp: "blocks_present sparse_record"
    by (simp add: blocks_present_def sparse_record_def hour_blocks_present_def sparse_hour_def)
  note t = decoding_has_no_validation[of sparse_record run_metadata "Num 46" "Num 7"]
  from t bp obtain lf where
    lf: "new_LocationForecasts sparse_record run_metadata (Num 46) (Num 7) = Inr lf"
    by blast
  with t have e: "elevation lf = loc_h sparse_record"
    and l: "list_all2
             (\<lambda>day df. thunderstormRisk df = day_th day
                        \<and> list_all2 (copied_as_is (loc_h sparse_record))
                            (case day_h day of None \<Rightarrow> [] | Some hs \<Rightarrow> hs) (forecasts df))
             (case loc_d sparse_record of None \<Rightarrow> [] | Some ds \<Rightarrow> ds) (dayForecasts lf)"
    by simp_all
  from l obtain df where df: "dayForecasts lf = [df]" "thunderstormRisk df = Undefined"
    and l2: "list_all2 (copied_as_is (Num 500)) [sparse_hour] (forecasts df)"
    by (auto simp add: sparse_record_def list_all2_Cons1)
  from l2 obtain f where f: "forecasts df = [f]" "copied_as_is (Num 500) sparse_hour f"
    by (auto simp add: list_all2_Cons1)
  from f(2) have
    "xcPotential f = Undefined" "xcPotentialFlatlands f = Num 0" "thermalVelocity f = NaN"
    "cloudCover f = Num (45 / 100)" "meanSeaLevelPressure f = Undefined"
    "isothermZero f = Undefined" "depth (boundaryLayer f) = Undefined"
    "soaringLayerDepth (boundaryLayer f) = Undefined"
    "surface_temperature (surface f) = Undefined" "total (rain f) = Undefined"
    "map ag_elevation (aboveGround f) = [Num 600]" "w_300MAGL (winds f) = None"
    by (simp_all add: copied_as_is_def sparse_hour_def profile_entry_def js_index_def)
  moreover from e have "elevation lf = Num 500" by (simp add: sparse_record_def)
  ultimately show ?thesis using bp lf df f(1) by auto
qed

text \<open>
  C8. The decoded \<open>aboveGround\<close> samples are the entries of the raw profile \<open>p\<close> whose
  elevation is strictly above the terrain elevation, in their original order (nothing is
  sorted), so every decoded sample has \<open>elevation > locationElevation\<close>.
\<close>

theorem aboveGround_filter:
  assumes "new_DetailedForecast data elev = Inr f"
  shows "\<exists>p. d_p data = Some p
           \<and> aboveGround f = map aboveGround_entry (filter (\<lambda>e. js_gt (p_h e) elev) p)
           \<and> map ag_elevation (aboveGround f) = filter (\<lambda>h. js_gt h elev) (map p_h p)
           \<and> subseq (map ag_elevation (aboveGround f)) (map p_h p)
           \<and> list_all (\<lambda>a. js_gt (ag_elevation a) elev) (aboveGround f)"
proof -
  from assms obtain p where p: "d_p data = Some p"
    and a: "aboveGround f = map aboveGround_entry (filter (\<lambda>e. js_gt (p_h e) elev) p)"
    by (rule new_DetailedForecast_Inr)
  have e: "ag_elevation (aboveGround_entry x) = p_h x" for x
    by (simp add: aboveGround_entry_def)
  have m: "map ag_elevation (aboveGround f) = filter (\<lambda>h. js_gt h elev) (map p_h p)"
    by (simp add: a filter_map comp_def e)
  have "subseq (map ag_elevation (aboveGround f)) (map p_h p)"
    unfolding m by (rule subseq_filter_left)
  moreover have "list_all (\<lambda>a. js_gt (ag_elevation a) elev) (aboveGround f)"
    by (simp add: a list_all_iff e)
  ultimately show ?thesis using p a m by blast
qed

text \<open>
  Terrain at 500 and a profile at 300, 600 and 1200 decode to the samples at 600 and
  1200, in that order.
\<close>

theorem aboveGround_filter_witness:
  "\<exists>f. new_DetailedForecast (hour_record (Some 10800000) (Num 40) None) (Num 500) = Inr f
     \<and> map p_h [profile_entry 300, profile_entry 600, profile_entry 1200]
         = [Num 300, Num 600, Num 1200]
     \<and> aboveGround f = [aboveGround_entry (profile_entry 600), aboveGround_entry (profile_entry 1200)]
     \<and> map ag_elevation (aboveGround f) = [Num 600, Num 1200]"
proof -
  obtain f where f: "new_DetailedForecast (hour_record (Some 10800000) (Num 40) None) (Num 500) = Inr f"
    using hour_record_decodes by blast
  have p: "d_p (hour_record (Some 10800000) (Num 40) None) =
             Some [profile_entry 300, profile_entry 600, profile_entry 1200]"
    by (simp add: hour_record_def)
  have h: "map p_h [profile_entry 300, profile_entry 600, profile_entry 1200]
         = [Num 300, Num 600, Num 1200]"
    by (simp add: profile_entry_def)
  from aboveGround_filter[OF f] p
  have "aboveGround f = map aboveGround_entry
          (filter (\<lambda>e. js_gt (p_h e) (Num 500)) [profile_entry 300, profile_entry 600, profile_entry 1200])"
    and "map ag_elevation (aboveGround f) =
          filter (\<lambda>h. js_gt h (Num 500)) (map p_h [profile_entry 300, profile_entry 600, profile_entry 1200])"
    by auto
  then have "aboveGround f = [aboveGround_entry (profile_entry 600), aboveGround_entry (profile_entry 1200)]"
    and "map ag_elevation (aboveGround f) = [Num 600, Num 1200]"
    by (simp_all add: profile_entry_def)
  with f h show ?thesis by auto
qed

text \<open>
  C9. In a decoded hour record \<open>cumulusClouds\<close> is defined exactly when the raw pair
  \<open>bl.c\<close> is present; \<open>soaringLayerDepth\<close> is \<open>bl.c[0]\<close> when it is and \<open>bl.h\<close>, the
  boundary layer depth, when it is not.
\<close>

theorem cumulusClouds_iff_cloud_pair:
  assumes "new_DetailedForecast data elev = Inr f"
  shows "\<exists>bl. d_bl data = Some bl
           \<and> (cumulusClouds (boundaryLayer f) \<noteq> None \<longleftrightarrow> bl_c bl \<noteq> None)
           \<and> soaringLayerDepth (boundaryLayer f) =
               (case bl_c bl of Some c \<Rightarrow> fst c | None \<Rightarrow> bl_h bl)
           \<and> depth (boundaryLayer f) = bl_h bl"
proof -
  from assms obtain bl where bl: "d_bl data = Some bl"
    and "depth (boundaryLayer f) = bl_h bl"
    and "soaringLayerDepth (boundaryLayer f) = (case bl_c bl of Some c \<Rightarrow> fst c | None \<Rightarrow> bl_h bl)"
    and "cumulusClouds (boundaryLayer f) =
       (case bl_c bl of None \<Rightarrow> None | Some c \<Rightarrow> Some \<lparr> cu_bottom = fst c, cu_top = snd c \<rparr>)"
    by (rule new_DetailedForecast_Inr)
  then show ?thesis by (auto split: option.splits)
qed

text \<open>
  With the pair (900, 1600) the soaring layer depth is 900; without it, the boundary
  layer depth 1400.
\<close>

theorem cumulusClouds_iff_cloud_pair_witness:
  "(\<exists>f. new_DetailedForecast (hour_record (Some 10800000) (Num 40) (Some (Num 900, Num 1600))) (Num 500) = Inr f
      \<and> cumulusClouds (boundaryLayer f) \<noteq> None
      \<and> soaringLayerDepth (boundaryLayer f) = Num 900)
   \<and> (\<exists>f. new_DetailedForecast (hour_record (Some 10800000) (Num 40) None) (Num 500) = Inr f
      \<and> cumulusClouds (boundaryLayer f) = None
      \<and> soaringLayerDepth (boundaryLayer f) = Num 1400)"
proof -
  obtain f where f: "new_DetailedForecast (hour_record (Some 10800000) (Num 40) (Some (Num 900, Num 1600))) (Num 500) = Inr f"
    using hour_record_decodes by blast
  obtain g where g: "new_DetailedForecast (hour_record (Some 10800000) (Num 40) None) (Num 500) = Inr g"
    using hour_record_decodes by blast
  from cumulusClouds_iff_cloud_pair[OF f]
  have "cumulusClouds (boundaryLayer f) \<noteq> None \<and> soaringLayerDepth (boundaryLayer f) = Num 900"
    by (simp add: hour_record_def)
  moreover from cumulusClouds_iff_cloud_pair[OF g]
  have "cumulusClouds (boundaryLayer g) = None \<and> soaringLayerDepth (boundaryLayer g) = Num 1400"
    by (simp add: hour_record_def)
  ultimately show ?thesis using f g by auto
qed

subsection \<open>Day grouping\<close>

lemma forEach_append:
  "forEach body (xs @ ys) s =
     (case forEach body xs s of Inl e \<Rightarrow> Inl e | Inr s' \<Rightarrow> forEach body ys s')"
  by (induction xs arbitrary: s) (auto split: sum.splits)

lemma forEach_snoc:
  "forEach body (xs @ [x]) s =
     (case forEach body xs s of Inl e \<Rightarrow> Inl e | Inr s' \<Rightarrow> body s' x)"
  by (simp add: forEach_append split: sum.splits)

lemma update_last: "bs \<noteq> [] \<Longrightarrow> bs[length bs - 1 := y] = butlast bs @ [y]"
  by (induction bs rule: rev_induct) (simp_all add: list_update_append)

lemma day_strict_eq_iff:
  "day_strict_eq a (Some b) \<longleftrightarrow> (\<exists>k. a = Some k \<and> b = Some k)"
  by (cases a; cases b) auto

lemma concat_butlast_last:
  "bs \<noteq> [] \<Longrightarrow> concat (map fst (butlast bs @ [(fst (last bs) @ ys, d)])) = concat (map fst bs) @ ys"
  by (induction bs rule: rev_induct) simp_all

lemma byDay_step_snoc:
  assumes "byDay_inv tza xs (bs, l)"
  shows "byDay_step tza (bs, l) x =
     Inr (if xs \<noteq> [] \<and> (\<exists>k. getDay tza (snd (snd x)) = Some k \<and> getDay tza (snd (snd (last xs))) = Some k)
          then butlast bs @ [(fst (last bs) @ [(fst x, fst (snd x))], snd (last bs))]
          else bs @ [([(fst x, fst (snd x))], snd (snd x))],
          Some (getDay tza (snd (snd x))))"
proof (cases x)
  case (fields e off d)
  show ?thesis
  proof (cases "xs = []")
    case True
    with assms have "l = None" by (simp add: byDay_inv_def)
    with True show ?thesis by (simp add: fields)
  next
    case False
    with assms have l: "l = Some (getDay tza (snd (snd (last xs))))" and bs: "bs \<noteq> []"
      by (simp_all add: byDay_inv_def)
    from bs have n: "bs ! (length bs - 1) = last bs" by (simp add: last_conv_nth)
    have u: "bs[length bs - 1 := y] = butlast bs @ [y]" for y
      by (rule update_last[OF bs])
    define c where "c \<longleftrightarrow> (\<exists>k. getDay tza d = Some k \<and> getDay tza (snd (snd (last xs))) = Some k)"
    have "byDay_step tza (bs, l) (e, off, d) =
       Inr (if c then butlast bs @ [(fst (last bs) @ [(e, off)], snd (last bs))]
            else bs @ [([(e, off)], d)], Some (getDay tza d))"
      using bs by (auto simp add: l day_strict_eq_iff u n c_def simp del: One_nat_def)
    with False show ?thesis
      by (auto simp add: fields c_def simp del: byDay_step.simps)
  qed
qed

lemma byDay_inv_step:
  assumes "byDay_inv tza xs st" "byDay_step tza st x = Inr st'"
  shows "byDay_inv tza (xs @ [x]) st'"
proof -
  obtain bs l where st: "st = (bs, l)" by (cases st)
  note s = byDay_step_snoc[OF assms(1)[unfolded st], of x]
  from assms(1) st have c: "concat (map fst bs) = map (\<lambda>p. (fst p, fst (snd p))) xs"
    and ne: "[] \<notin> set (map fst bs)" and e: "bs = [] \<longleftrightarrow> xs = []"
    by (simp_all add: byDay_inv_def)
  show ?thesis
  proof (cases "xs \<noteq> [] \<and> (\<exists>k. getDay tza (snd (snd x)) = Some k \<and> getDay tza (snd (snd (last xs))) = Some k)")
    case True
    then have bs: "bs \<noteq> []" using e by simp
    from True s assms(2) st
    have st': "st' = (butlast bs @ [(fst (last bs) @ [(fst x, fst (snd x))], snd (last bs))], Some (getDay tza (snd (snd x))))"
      by simp
    have "set (butlast bs) \<subseteq> set bs" by (meson in_set_butlastD subsetI)
    with ne have "[] \<notin> set (map fst (butlast bs))" by auto
    moreover have "concat (map fst (butlast bs)) @ fst (last bs) = concat (map fst bs)"
      using bs by (induction bs rule: rev_induct) simp_all
    ultimately show ?thesis
      unfolding byDay_inv_def st' using c bs by simp
  next
    case False
    with s assms(2) st
    have st': "st' = (bs @ [([(fst x, fst (snd x))], snd (snd x))], Some (getDay tza (snd (snd x))))"
      by auto
    show ?thesis
      unfolding byDay_inv_def st' using c ne by simp
  qed
qed

lemma forEach_byDay_inv:
  "\<exists>st. forEach (byDay_step tza) xs ([], None) = Inr st \<and> byDay_inv tza xs st"
proof (induction xs rule: rev_induct)
  case Nil
  show ?case by (simp add: byDay_inv_def)
next
  case (snoc x xs)
  then obtain st where st: "forEach (byDay_step tza) xs ([], None) = Inr st" "byDay_inv tza xs st"
    by blast
  obtain bs l where p: "st = (bs, l)" by (cases st)
  from byDay_step_snoc[OF st(2)[unfolded p], of x]
  obtain st' where s: "byDay_step tza st x = Inr st'" unfolding p by blast
  from byDay_inv_step[OF st(2) s] s st(1) show ?case
    by (simp add: forEach_snoc)
qed

lemma week_days:
  "map (\<lambda>p. getDay utc (snd (snd p))) week_periods =
     [Some 1, Some 1, Some 1, Some 2, Some 2, Some 2, Some 2]"
  by (simp add: week_periods_def getDay_def utc_def)

lemma week_periods_grouped: "periodSelectorsByDay utc week_periods = Inr week_groups"
  by (simp add: periodSelectorsByDay_def week_periods_def week_groups_def getDay_def utc_def)

text \<open>
  C2. On every sequence of periods the grouping loop returns (it never throws), the
  groups concatenated in order are the input periods (element and hour offset), no group
  is empty, and a further period joins the last group exactly when its day of the week
  equals that of the period before it, and starts a new group otherwise.
\<close>

theorem periodSelectorsByDay_partition:
  "\<exists>groups. periodSelectorsByDay tza xs = Inr groups
     \<and> concat (map fst groups) = map (\<lambda>p. (fst p, fst (snd p))) xs
     \<and> [] \<notin> set (map fst groups)
     \<and> (\<forall>x. periodSelectorsByDay tza (xs @ [x]) =
            Inr (if xs \<noteq> [] \<and> (\<exists>k. getDay tza (snd (snd x)) = Some k
                                   \<and> getDay tza (snd (snd (last xs))) = Some k)
                 then butlast groups @
                      [(fst (last groups) @ [(fst x, fst (snd x))], snd (last groups))]
                 else groups @ [([(fst x, fst (snd x))], snd (snd x))]))"
proof -
  obtain groups l where st: "forEach (byDay_step tza) xs ([], None) = Inr (groups, l)"
    and inv: "byDay_inv tza xs (groups, l)"
    using forEach_byDay_inv[of tza xs] by force
  have "periodSelectorsByDay tza xs = Inr groups"
    by (simp add: periodSelectorsByDay_def st)
  moreover from inv have "concat (map fst groups) = map (\<lambda>p. (fst p, fst (snd p))) xs"
    and "[] \<notin> set (map fst groups)"
    by (simp_all add: byDay_inv_def)
  moreover have "periodSelectorsByDay tza (xs @ [x]) =
            Inr (if xs \<noteq> [] \<and> (\<exists>k. getDay tza (snd (snd x)) = Some k
                                   \<and> getDay tza (snd (snd (last xs))) = Some k)
                 then butlast groups @
                      [(fst (last groups) @ [(fst x, fst (snd x))], snd (last groups))]
                 else groups @ [([(fst x, fst (snd x))], snd (snd x))])" for x
    unfolding periodSelectorsByDay_def forEach_snoc st
    by (simp add: byDay_step_snoc[OF inv] del: byDay_step.simps)
  ultimately show ?thesis by blast
qed

text \<open>
  The seven periods of the example fall into a Monday group of three and a Tuesday
  group of four; a period on Wednesday opens a third group, one more on Tuesday joins
  the second.
\<close>

theorem periodSelectorsByDay_partition_witness:
  "periodSelectorsByDay utc week_periods = Inr week_groups
     \<and> concat (map fst week_groups) = map (\<lambda>p. (fst p, fst (snd p))) week_periods
     \<and> [] \<notin> set (map fst week_groups)
     \<and> periodSelectorsByDay utc (week_periods @ [(''00'', Some 45, Some 518400000)]) =
         Inr (week_groups @ [([(''00'', Some 45)], Some 518400000)])
     \<and> periodSelectorsByDay utc (week_periods @ [(''21'', Some 42, Some 507600000)]) =
         Inr (butlast week_groups @
              [(fst (last week_groups) @ [(''21'', Some 42)], snd (last week_groups))])"
proof -
  obtain groups where g: "periodSelectorsByDay utc week_periods = Inr groups"
    "concat (map fst groups) = map (\<lambda>p. (fst p, fst (snd p))) week_periods"
    "[] \<notin> set (map fst groups)"
    "\<And>x. periodSelectorsByDay utc (week_periods @ [x]) =
            Inr (if week_periods \<noteq> [] \<and> (\<exists>k. getDay utc (snd (snd x)) = Some k
                                   \<and> getDay utc (snd (snd (last week_periods))) = Some k)
                 then butlast groups @
                      [(fst (last groups) @ [(fst x, fst (snd x))], snd (last groups))]
                 else groups @ [([(fst x, fst (snd x))], snd (snd x))])"
    using periodSelectorsByDay_partition[of utc week_periods] by blast
  from g(1) have eq: "groups = week_groups" by (simp add: week_periods_grouped)
  have l: "getDay utc (snd (snd (last week_periods))) = Some 2"
    by (simp add: week_periods_def getDay_def utc_def)
  have ne: "week_periods \<noteq> []" by (simp add: week_periods_def)
  have a: "getDay utc (Some 518400000) = Some 3" and b: "getDay utc (Some 507600000) = Some 2"
    by (simp_all add: getDay_def utc_def)
  show ?thesis
    using g(2,3) g(4)[of "(''00'', Some 45, Some 518400000)"]
      g(4)[of "(''21'', Some 42, Some 507600000)"]
    unfolding eq by (simp add: week_periods_grouped l ne a b)
qed

subsection \<open>Temporal index\<close>

lemma Math_round_mono: "x \<le> y \<Longrightarrow> Math_round x \<le> Math_round y"
  unfolding Math_round_def by (rule floor_mono) simp

lemma Math_round_add_one: "Math_round (x + 1) = Math_round x + 1"
proof -
  have "x + 1 + 1 / 2 = (x + 1 / 2) + of_int 1" by simp
  then show ?thesis
    unfolding Math_round_def by (simp only: floor_add_int)
qed

lemma Math_round_nearest: "\<bar>x - of_int (Math_round x)\<bar> \<le> \<bar>x - of_int k\<bar>"
  using round_diff_minimal[of x k] by (simp add: Math_round_def round_def)

lemma hourOffset_Some:
  "time f = Some t \<Longrightarrow>
     hourOffsetSinceFirstTimeStep f (Some t0) =
       Some (Math_round ((real_of_int t - real_of_int t0) / 3600000))"
  by (simp add: hourOffsetSinceFirstTimeStep_def)

lemma hourOffset_le:
  assumes "js_lt (time f) (time g)"
  shows "js_le (hourOffsetSinceFirstTimeStep f (Some t0)) (hourOffsetSinceFirstTimeStep g (Some t0))"
proof -
  from assms obtain a b where ab: "time f = Some a" "time g = Some b" "a < b"
    by (cases "time f"; cases "time g") auto
  then have "(real_of_int a - real_of_int t0) / 3600000 \<le> (real_of_int b - real_of_int t0) / 3600000"
    by (simp add: divide_right_mono)
  then show ?thesis
    by (simp add: hourOffset_Some ab Math_round_mono)
qed

lemma hourOffset_lt:
  assumes "hour_apart (time f) (time g)"
  shows "js_lt (hourOffsetSinceFirstTimeStep f (Some t0)) (hourOffsetSinceFirstTimeStep g (Some t0))"
proof -
  from assms obtain a b where ab: "time f = Some a" "time g = Some b" "a + 3600000 \<le> b"
    by (cases "time f"; cases "time g") auto
  then have "real_of_int a + 3600000 \<le> real_of_int b"
    by linarith
  then have "(real_of_int a - real_of_int t0) / 3600000 + 1 \<le> (real_of_int b - real_of_int t0) / 3600000"
    by (simp add: field_simps)
  then have "Math_round ((real_of_int a - real_of_int t0) / 3600000 + 1)
      \<le> Math_round ((real_of_int b - real_of_int t0) / 3600000)"
    by (rule Math_round_mono)
  then show ?thesis
    by (simp add: hourOffset_Some ab Math_round_add_one)
qed

lemma map_fst_offsetAndDates:
  "map fst (offsetAndDates lf) =
     map (\<lambda>f. hourOffsetSinceFirstTimeStep f (firstTimeStep (metadata lf))) (flatForecasts lf)"
  by (simp add: offsetAndDates_def comp_def)

lemma map_snd_offsetAndDates: "map snd (offsetAndDates lf) = map time (flatForecasts lf)"
  by (simp add: offsetAndDates_def comp_def)

text \<open>
  C5, amended. When the forecast times are strictly increasing and the first time step is
  a valid date, \<open>offsetAndDates()\<close> is strictly increasing in its dates and non-decreasing
  in its hour offsets; the hour offsets are strictly increasing when the times are at
  least one hour apart.
\<close>

theorem offsetAndDates_monotone:
  assumes "sorted_wrt js_lt (map time (flatForecasts lf))"
    and "firstTimeStep (metadata lf) \<noteq> None"
  shows "sorted_wrt js_lt (map snd (offsetAndDates lf))
       \<and> sorted_wrt js_le (map fst (offsetAndDates lf))
       \<and> (sorted_wrt hour_apart (map time (flatForecasts lf)) \<longrightarrow>
            sorted_wrt js_lt (map fst (offsetAndDates lf)))"
proof -
  from assms(2) obtain t0 where t0: "firstTimeStep (metadata lf) = Some t0" by blast
  have "sorted_wrt js_lt (map snd (offsetAndDates lf))"
    using assms(1) by (simp only: map_snd_offsetAndDates)
  moreover have "sorted_wrt js_le (map fst (offsetAndDates lf))"
    unfolding map_fst_offsetAndDates t0 sorted_wrt_map
    using assms(1) unfolding sorted_wrt_map
    by (rule sorted_wrt_mono_rel[rotated]) (rule hourOffset_le)
  moreover have "sorted_wrt js_lt (map fst (offsetAndDates lf))"
    if "sorted_wrt hour_apart (map time (flatForecasts lf))"
    unfolding map_fst_offsetAndDates t0 sorted_wrt_map
    using that unfolding sorted_wrt_map
    by (rule sorted_wrt_mono_rel[rotated]) (rule hourOffset_lt)
  ultimately show ?thesis by blast
qed

lemmas example_defs =
  decoded_def close_record_def three_hourly_record_def location_record_def hour_record_def
  run_metadata_def new_LocationForecasts_def new_DayForecasts_def new_DetailedForecast_def
  flatForecasts_def offsetAndDates_def hourOffsetSinceFirstTimeStep_def Math_round_def

lemma close_times: "map time (flatForecasts (decoded close_record)) = [Some 10800000, Some 10860000]"
  by (simp add: example_defs)

lemma close_offsets:
  "offsetAndDates (decoded close_record) = [(Some 3, Some 10800000), (Some 3, Some 10860000)]"
  by (simp add: example_defs)

text \<open>
  Against C5 as stated: two forecasts one minute apart (3 h 00 and 3 h 01 after the first
  time step) have strictly increasing times and the same hour offset 3.
\<close>

theorem offsets_not_strictly_increasing_counterexample:
  "\<not> isl (new_LocationForecasts close_record run_metadata (Num 46) (Num 7))
   \<and> sorted_wrt js_lt (map time (flatForecasts (decoded close_record)))
   \<and> map fst (offsetAndDates (decoded close_record)) = [Some 3, Some 3]
   \<and> \<not> sorted_wrt js_lt (map fst (offsetAndDates (decoded close_record)))"
proof -
  have "\<not> isl (new_LocationForecasts close_record run_metadata (Num 46) (Num 7))"
    by (simp add: close_record_def location_record_def hour_record_def
        new_LocationForecasts_def new_DayForecasts_def new_DetailedForecast_def)
  then show ?thesis
    by (simp add: close_times close_offsets)
qed

lemma three_hourly_times:
  "map time (flatForecasts (decoded three_hourly_record)) = [Some 10800000, Some 21600000]"
  by (simp add: example_defs)

lemma three_hourly_offsets:
  "offsetAndDates (decoded three_hourly_record) = [(Some 3, Some 10800000), (Some 6, Some 21600000)]"
  by (simp add: example_defs)

lemma decoded_metadata: "firstTimeStep (metadata (decoded three_hourly_record)) = Some 0"
  by (simp add: example_defs)

text \<open>
  Forecasts 3 h and 6 h after the first time step: offsets 3 and 6.
\<close>

theorem offsetAndDates_monotone_witness:
  "sorted_wrt js_lt (map time (flatForecasts (decoded three_hourly_record)))
   \<and> firstTimeStep (metadata (decoded three_hourly_record)) \<noteq> None
   \<and> sorted_wrt hour_apart (map time (flatForecasts (decoded three_hourly_record)))
   \<and> sorted_wrt js_lt (map snd (offsetAndDates (decoded three_hourly_record)))
   \<and> sorted_wrt js_le (map fst (offsetAndDates (decoded three_hourly_record)))
   \<and> sorted_wrt js_lt (map fst (offsetAndDates (decoded three_hourly_record)))"
proof -
  have a: "sorted_wrt js_lt (map time (flatForecasts (decoded three_hourly_record)))"
    and c: "sorted_wrt hour_apart (map time (flatForecasts (decoded three_hourly_record)))"
    by (simp_all add: three_hourly_times)
  have b: "firstTimeStep (metadata (decoded three_hourly_record)) \<noteq> None"
    by (simp add: decoded_metadata)
  from offsetAndDates_monotone[OF a b] a b c show ?thesis by blast
qed

text \<open>
  C4. \<open>atHourOffset(q)\<close> is not found exactly when no forecast of any day has the hour
  offset \<open>q\<close>; when it is found, it is the first forecast, in the order of the days and
  of the forecasts within each day, whose offset is \<open>q\<close>. There is no fallback to a
  neighbour: when the forecasts are in chronological order and the first offset is 3,
  \<open>atHourOffset(0)\<close> is not found.
\<close>

theorem atHourOffset_exact:
  "(atHourOffset lf q = None \<longleftrightarrow>
      \<not> (\<exists>day \<in> set (dayForecasts lf). \<exists>f \<in> set (forecasts day).
            hourOffsetSinceFirstTimeStep f (firstTimeStep (metadata lf)) = Some q))
   \<and> (\<forall>f. atHourOffset lf q = Some f \<longrightarrow>
         (\<exists>i < length (concat (map forecasts (dayForecasts lf))).
            concat (map forecasts (dayForecasts lf)) ! i = f
            \<and> hourOffsetSinceFirstTimeStep f (firstTimeStep (metadata lf)) = Some q
            \<and> (\<forall>j < i. hourOffsetSinceFirstTimeStep
                           (concat (map forecasts (dayForecasts lf)) ! j)
                           (firstTimeStep (metadata lf)) \<noteq> Some q)))
   \<and> (sorted_wrt js_lt (map time (concat (map forecasts (dayForecasts lf))))
        \<and> concat (map forecasts (dayForecasts lf)) \<noteq> []
        \<and> hourOffsetSinceFirstTimeStep (hd (concat (map forecasts (dayForecasts lf))))
             (firstTimeStep (metadata lf)) = Some 3
        \<longrightarrow> atHourOffset lf 0 = None)"
proof (intro conjI allI impI)
  show "atHourOffset lf q = None \<longleftrightarrow>
      \<not> (\<exists>day \<in> set (dayForecasts lf). \<exists>f \<in> set (forecasts day).
            hourOffsetSinceFirstTimeStep f (firstTimeStep (metadata lf)) = Some q)"
    by (auto simp add: atHourOffset_def find_None_iff flatForecasts_concat)
next
  fix f
  assume "atHourOffset lf q = Some f"
  then show "\<exists>i < length (concat (map forecasts (dayForecasts lf))).
            concat (map forecasts (dayForecasts lf)) ! i = f
            \<and> hourOffsetSinceFirstTimeStep f (firstTimeStep (metadata lf)) = Some q
            \<and> (\<forall>j < i. hourOffsetSinceFirstTimeStep
                           (concat (map forecasts (dayForecasts lf)) ! j)
                           (firstTimeStep (metadata lf)) \<noteq> Some q)"
    unfolding atHourOffset_def find_Some_iff flatForecasts_concat by auto
next
  assume h: "sorted_wrt js_lt (map time (concat (map forecasts (dayForecasts lf))))
        \<and> concat (map forecasts (dayForecasts lf)) \<noteq> []
        \<and> hourOffsetSinceFirstTimeStep (hd (concat (map forecasts (dayForecasts lf))))
             (firstTimeStep (metadata lf)) = Some 3"
  then obtain f0 rest where fl: "concat (map forecasts (dayForecasts lf)) = f0 # rest"
    by (cases "concat (map forecasts (dayForecasts lf))") simp_all
  with h have o3: "hourOffsetSinceFirstTimeStep f0 (firstTimeStep (metadata lf)) = Some 3"
    by simp
  then obtain t0 where t0: "firstTimeStep (metadata lf) = Some t0"
    by (cases "firstTimeStep (metadata lf)")
       (simp_all add: hourOffsetSinceFirstTimeStep_def split: option.splits)
  have "hourOffsetSinceFirstTimeStep g (firstTimeStep (metadata lf)) \<noteq> Some 0"
    if g: "g \<in> set (concat (map forecasts (dayForecasts lf)))" for g
  proof (cases "g = f0")
    case True
    with o3 show ?thesis by simp
  next
    case False
    with g h have "js_lt (time f0) (time g)" unfolding fl by auto
    from hourOffset_le[OF this, of t0] o3
    show ?thesis
      unfolding t0 by (cases "hourOffsetSinceFirstTimeStep g (Some t0)") auto
  qed
  then show "atHourOffset lf 0 = None"
    unfolding atHourOffset_def find_None_iff flatForecasts_concat by blast
qed

lemma two_day_forecasts:
  "map (map (\<lambda>f. (time f, xcPotential f))) (map forecasts (dayForecasts (decoded two_day_record))) =
     [[(Some 10800000, Num 40), (Some 21600000, Num 60)],
      [(Some 97200000, Num 80), (Some 108000000, Num 90)]]"
  by (simp add: decoded_def two_day_record_def hour_record_def run_metadata_def
      new_LocationForecasts_def new_DayForecasts_def new_DetailedForecast_def)

lemma two_day_metadata: "firstTimeStep (metadata (decoded two_day_record)) = Some 0"
  by (simp add: decoded_def two_day_record_def hour_record_def run_metadata_def
      new_LocationForecasts_def new_DayForecasts_def new_DetailedForecast_def)

text \<open>
  With forecasts at the offsets 3 and 6 on the first day and 27 and 30 on the second, the
  offsets 0 and 4 are not found, the offset 6 gives the second forecast of the first day
  and the offset 27 the first forecast of the second day.
\<close>

theorem atHourOffset_exact_witness:
  "map (map xcPotential) (map forecasts (dayForecasts (decoded two_day_record)))
     = [[Num 40, Num 60], [Num 80, Num 90]]
   \<and> map fst (offsetAndDates (decoded two_day_record)) = [Some 3, Some 6, Some 27, Some 30]
   \<and> atHourOffset (decoded two_day_record) 0 = None
   \<and> atHourOffset (decoded two_day_record) 4 = None
   \<and> map_option xcPotential (atHourOffset (decoded two_day_record) 6) = Some (Num 60)
   \<and> map_option xcPotential (atHourOffset (decoded two_day_record) 27) = Some (Num 80)"
proof -
  let ?lf = "decoded two_day_record"
  obtain a b c d where days: "map forecasts (dayForecasts ?lf) = [[a, b], [c, d]]"
    and tm: "time a = Some 10800000" "time b = Some 21600000" "time c = Some 97200000"
      "time d = Some 108000000"
    and xc: "xcPotential a = Num 40" "xcPotential b = Num 60" "xcPotential c = Num 80"
      "xcPotential d = Num 90"
    using two_day_forecasts by (auto simp add: map_eq_Cons_conv)
  have off: "hourOffsetSinceFirstTimeStep a (Some 0) = Some 3"
    "hourOffsetSinceFirstTimeStep b (Some 0) = Some 6"
    "hourOffsetSinceFirstTimeStep c (Some 0) = Some 27"
    "hourOffsetSinceFirstTimeStep d (Some 0) = Some 30"
    by (simp_all add: hourOffsetSinceFirstTimeStep_def tm Math_round_def)
  note t0 = atHourOffset_exact[of ?lf 0, unfolded days two_day_metadata]
  have z: "atHourOffset ?lf 0 = None"
    using t0 by (simp add: tm off)
  have four: "atHourOffset ?lf 4 = None"
    "map_option xcPotential (atHourOffset ?lf 6) = Some (Num 60)"
    "map_option xcPotential (atHourOffset ?lf 27) = Some (Num 80)"
    by (simp_all add: atHourOffset_def flatForecasts_def days two_day_metadata off xc)
  have "map fst (offsetAndDates ?lf) = [Some 3, Some 6, Some 27, Some 30]"
    by (simp add: offsetAndDates_def flatForecasts_def days two_day_metadata off)
  with z four days xc show ?thesis by simp
qed

lemma Math_round_hours: "Math_round (real_of_int d / 3600000) = (d + 1800000) div 3600000"
proof -
  have "real_of_int d / 3600000 + 1 / 2 = real_of_int (d + 1800000) / real_of_int 3600000"
    by (simp add: field_simps)
  then show ?thesis
    unfolding Math_round_def by (simp only: floor_divide_of_int_eq)
qed

text \<open>
  C7. For valid dates the hour offset is \<open>round((time - firstTimeStep) / 1 hour)\<close>: the
  library's \<open>round\<close>, an integer at least as close to the quotient as any other, which
  is \<open>(time - firstTimeStep + 30 min) div 1 hour\<close> on the millisecond values.
\<close>

theorem hourOffset_rounds_to_nearest:
  "\<exists>r. hourOffsetSinceFirstTimeStep (forecast\<lparr>time := Some t\<rparr>) (Some first) = Some r
       \<and> r = round (real_of_int (t - first) / 3600000)
       \<and> (\<forall>k. \<bar>real_of_int (t - first) / 3600000 - of_int r\<bar>
                \<le> \<bar>real_of_int (t - first) / 3600000 - of_int k\<bar>)
       \<and> r = (t - first + 1800000) div 3600000"
proof -
  let ?x = "real_of_int (t - first) / 3600000"
  have "hourOffsetSinceFirstTimeStep (forecast\<lparr>time := Some t\<rparr>) (Some first) = Some (Math_round ?x)"
    by (simp add: hourOffsetSinceFirstTimeStep_def)
  moreover have "Math_round ?x = round ?x"
    by (simp add: Math_round_def round_def)
  moreover have "\<bar>?x - of_int (Math_round ?x)\<bar> \<le> \<bar>?x - of_int k\<bar>" for k
    by (rule Math_round_nearest)
  moreover have "Math_round ?x = (t - first + 1800000) div 3600000"
    by (rule Math_round_hours)
  ultimately show ?thesis by blast
qed

text \<open>
  One hour and 59 minutes after the first time step the offset is 2; truncation would
  give 1.
\<close>

theorem hourOffset_rounds_to_nearest_witness:
  "hourOffsetSinceFirstTimeStep
     (projr (new_DetailedForecast (hour_record None (Num 40) None) (Num 500))\<lparr>time := Some 7140000\<rparr>)
     (Some 0) = Some 2
   \<and> (7140000 - 0) div 3600000 = (1 :: int)"
proof -
  from hourOffset_rounds_to_nearest[where t = 7140000 and first = 0 and forecast =
      "projr (new_DetailedForecast (hour_record None (Num 40) None) (Num 500))"]
  show ?thesis by auto
qed


subsection \<open>Day elements\<close>

lemma periodSelectorsByDay_nonempty:
  assumes "periodSelectorsByDay tza xs = Inr groups"
  shows "[] \<notin> set (map fst groups)"
proof -
  obtain st where st: "forEach (byDay_step tza) xs ([], None) = Inr st" "byDay_inv tza xs st"
    using forEach_byDay_inv[of tza xs] by blast
  with assms have "groups = fst st"
    by (simp add: periodSelectorsByDay_def split: prod.splits)
  with st(2) show ?thesis by (simp add: byDay_inv_def)
qed

text \<open>
  C6. The day element of a group shows the date label exactly when the group has
  \<open>periodsPerDay\<close> periods, and the no-break space otherwise.
\<close>

theorem day_label_iff_full_day:
  assumes "periodSelectorsByDay tza xs = Inr groups" and "i < length groups"
  shows "dayEl_label (periodSelectors periodsPerDay groups ! i) =
           (if int (length (fst (groups ! i))) = periodsPerDay
            then LocaleDateString (snd (groups ! i)) else Nbsp)
       \<and> (dayEl_label (periodSelectors periodsPerDay groups ! i) \<noteq> Nbsp
            \<longleftrightarrow> int (length (fst (groups ! i))) = periodsPerDay)"
  using assms(2)
  by (cases "groups ! i") (simp add: periodSelectors_def dayElement_def)

text \<open>
  With three periods per day, the Monday group of three is labelled and the Tuesday
  group of four is not.
\<close>

theorem day_label_iff_full_day_witness:
  "map (\<lambda>p. getDay utc (snd (snd p))) week_periods =
     [Some 1, Some 1, Some 1, Some 2, Some 2, Some 2, Some 2]
   \<and> periodSelectorsByDay utc week_periods = Inr week_groups
   \<and> map (\<lambda>g. length (fst g)) week_groups = [3, 4]
   \<and> dayEl_label (periodSelectors 3 week_groups ! 0) = LocaleDateString (Some 367200000)
   \<and> dayEl_label (periodSelectors 3 week_groups ! 1) = Nbsp"
proof -
  have g: "periodSelectorsByDay utc week_periods = Inr week_groups"
    by (rule week_periods_grouped)
  have l: "length week_groups = 2" "week_groups ! 0 =
      ([(''06'', Some 3), (''12'', Some 9), (''18'', Some 15)], Some 367200000)"
    "week_groups ! Suc 0 =
      ([(''00'', Some 21), (''06'', Some 27), (''12'', Some 33), (''18'', Some 39)],
       Some 432000000)"
    by (simp_all add: week_groups_def)
  have "dayEl_label (periodSelectors 3 week_groups ! 0) = LocaleDateString (Some 367200000)"
    using day_label_iff_full_day[OF g, of 0 3] by (simp add: l)
  moreover have "dayEl_label (periodSelectors 3 week_groups ! 1) = Nbsp"
    using day_label_iff_full_day[OF g, of 1 3] by (simp add: l)
  moreover have "map (\<lambda>g. length (fst g)) week_groups = [3, 4]"
    by (simp add: week_groups_def)
  ultimately show ?thesis using g week_days by simp
qed

text \<open>
  C10. A click on the day element of a group passes on the hour offset of the group's
  second period when the group has at least two periods; a group of the grouping is never
  empty, so the only other case is a single period, where \<open>periods[1]\<close> is out of bounds
  and the click throws instead of selecting an offset.
\<close>

theorem day_click_selects_second_period:
  assumes "periodSelectorsByDay tza xs = Inr groups" and "i < length groups"
  shows "(2 \<le> length (fst (groups ! i)) \<longrightarrow>
            dayEl_onClick (periodSelectors periodsPerDay groups ! i) =
              Inr (snd (fst (groups ! i) ! 1)))
       \<and> (length (fst (groups ! i)) = 1 \<longrightarrow>
            dayEl_onClick (periodSelectors periodsPerDay groups ! i) = Inl TypeError)
       \<and> (2 \<le> length (fst (groups ! i)) \<or> length (fst (groups ! i)) = 1)"
proof -
  from periodSelectorsByDay_nonempty[OF assms(1)] assms(2)
  have "fst (groups ! i) \<noteq> []"
    by (metis length_map nth_map nth_mem)
  then have "length (fst (groups ! i)) \<noteq> 0"
    by simp
  then have "2 \<le> length (fst (groups ! i)) \<or> length (fst (groups ! i)) = 1"
    by arith
  then show ?thesis
    using assms(2)
    by (cases "groups ! i") (auto simp add: periodSelectors_def dayElement_def js_index_def)
qed

text \<open>
  Three Monday periods and one Tuesday period: a click on Monday selects the offset 9,
  a click on Tuesday throws.
\<close>

theorem day_click_selects_second_period_witness:
  "periodSelectorsByDay utc short_week_periods =
     Inr [([(''06'', Some 3), (''12'', Some 9), (''18'', Some 15)], Some 367200000),
          ([(''00'', Some 21)], Some 432000000)]
   \<and> dayEl_onClick (periodSelectors 3
        [([(''06'', Some 3), (''12'', Some 9), (''18'', Some 15)], Some 367200000),
         ([(''00'', Some 21)], Some 432000000)] ! 0) = Inr (Some 9)
   \<and> dayEl_onClick (periodSelectors 3
        [([(''06'', Some 3), (''12'', Some 9), (''18'', Some 15)], Some 367200000),
         ([(''00'', Some 21)], Some 432000000)] ! 1) = Inl TypeError"
proof -
  have g: "periodSelectorsByDay utc short_week_periods =
     Inr [([(''06'', Some 3), (''12'', Some 9), (''18'', Some 15)], Some 367200000),
          ([(''00'', Some 21)], Some 432000000)]"
    by (simp add: periodSelectorsByDay_def short_week_periods_def week_periods_def
        getDay_def utc_def)
  from day_click_selects_second_period[OF g, of 0 3] day_click_selects_second_period[OF g, of 1 3] g
  show ?thesis by simp
qed

subsection \<open>Offset navigation\<close>

text \<open>
  C3. From a current offset in \<open>[3, latest]\<close> each of the four buttons gives
  \<open>clamp(current + delta, 3, latest)\<close>.
\<close>

theorem nextOffset_is_clamp:
  assumes "3 \<le> current" and "current \<le> latest_offset"
  shows "nextOffset current i latest_offset = nextOffset_spec current i 3 latest_offset"
  using assms
  by (cases i) (simp_all add: nextOffset_spec_def clamp_def previousDayBtn_def
      previousPeriodBtn_def nextPeriodBtn_def nextDayBtn_def)

text \<open>
  The three instances of the specification, with \<open>latest = 180\<close>.
\<close>

theorem nextOffset_is_clamp_witness:
  "nextOffset 3 PreviousPeriod 180 = 3
   \<and> nextOffset 180 NextDay 180 = 180
   \<and> nextOffset 10 NextPeriod 180 = 13"
  using nextOffset_is_clamp[of 3 180 PreviousPeriod] nextOffset_is_clamp[of 180 180 NextDay]
    nextOffset_is_clamp[of 10 180 NextPeriod]
  by (simp add: nextOffset_spec_def clamp_def del: nextOffset.simps)


end
